theory Spec2Isabelle
  imports Complex_Main
begin

section \<open>Python values, exceptions and the server state\<close>

text \<open>
  The server \<^verbatim>\<open>docs/jarvis-python-server.py\<close> exchanges JSON documents. A decoded
  document is a Python object: \<^verbatim>\<open>None\<close>, a bool, an int, a float, a str, a list or a
  dict with string keys. A dict keeps its keys in insertion order and holds each key once,
  so it is an association list with distinct keys. A \<^verbatim>\<open>str\<close> is written as its
  UTF-8 bytes; the program never measures or indexes a string. A float is the real number
  its literal denotes; the program performs no arithmetic on floats.
\<close>

datatype pyobj =
    PyNone
  | PyBool bool
  | PyInt int
  | PyFloat real
  | PyStr string
  | PyList "pyobj list"
  | PyDict "(string \<times> pyobj) list"

type_synonym pydict = "(string \<times> pyobj) list"

text \<open>
  An exception is its class and the text \<^verbatim>\<open>str(e)\<close> gives. Every class below derives from
  \<^verbatim>\<open>Exception\<close>, so \<^verbatim>\<open>except Exception\<close> catches each of them.
\<close>

datatype exn_class =
    WebSocketDisconnect
  | JSONDecodeError
  | AttributeError
  | ValueError
  | RuntimeError

datatype exn = Exn (exn_class: exn_class) (exn_str: string)

text \<open>
  A \<^verbatim>\<open>WebSocket\<close> object is compared by identity; a handle stands for it. The module's
  only mutable global is \<^verbatim>\<open>manager\<close>, whose single field is \<^verbatim>\<open>active_connections\<close>.
  The state also records, in order, every call \<^verbatim>\<open>send_json(message)\<close> made on a socket.
\<close>

type_synonym websocket = nat

record state =
  active_connections :: "websocket list"
  sends :: "(websocket \<times> pyobj) list"

text \<open>\<^verbatim>\<open>d.get(key, default)\<close> on a dict.\<close>

definition dict_get :: "pydict \<Rightarrow> string \<Rightarrow> pyobj \<Rightarrow> pyobj" where
  "dict_get d k dflt = (case map_of d k of None \<Rightarrow> dflt | Some v \<Rightarrow> v)"

text \<open>The name Python prints for the type of a decoded value.\<close>

fun type_name :: "pyobj \<Rightarrow> string" where
  "type_name PyNone = ''NoneType''"
| "type_name (PyBool b) = ''bool''"
| "type_name (PyInt i) = ''int''"
| "type_name (PyFloat x) = ''float''"
| "type_name (PyStr s) = ''str''"
| "type_name (PyList xs) = ''list''"
| "type_name (PyDict d) = ''dict''"

text \<open>
  \<^verbatim>\<open>message.get(key, default)\<close> where \<^verbatim>\<open>message\<close> is any decoded value: only a dict has
  the method; on every other value the attribute lookup raises \<^verbatim>\<open>AttributeError\<close>.
\<close>

fun obj_get :: "pyobj \<Rightarrow> string \<Rightarrow> pyobj \<Rightarrow> exn + pyobj" where
  "obj_get (PyDict d) k dflt = Inr (dict_get d k dflt)"
| "obj_get v k dflt =
     Inl (Exn AttributeError ([CHR 0x27] @ type_name v @ ''' object has no attribute 'get'' @ [CHR 0x27]))"

text \<open>
  The clause \<^verbatim>\<open>except Exception as e: return {"success": False, "error": str(e)}\<close>
  that closes every HTTP handler: an exception raised by the body becomes a result.
\<close>

definition failure :: "string \<Rightarrow> pyobj" where
  "failure err = PyDict [(''success'', PyBool False), (''error'', PyStr err)]"

definition except_Exception :: "exn + pyobj \<Rightarrow> exn + pyobj" where
  "except_Exception r = (case r of Inl e \<Rightarrow> Inr (failure (exn_str e)) | Inr v \<Rightarrow> Inr v)"

section \<open>Request models\<close>

text \<open>
  The pydantic models. The field \<^verbatim>\<open>context\<close> is written \<open>context'\<close>, the
  plain name being reserved.
\<close>

record VisionRequest =
  action :: string
  data :: "pydict option"

record ActionRequest =
  action :: string
  data :: pydict

record PlannerRequest =
  goal :: string
  context' :: "pydict option"

record AgentRequest =
  command :: string
  mode :: "string option"
  context' :: "pydict option"

section \<open>Portuguese literals\<close>

text \<open>The non-ASCII letters of the program's string literals, as UTF-8.\<close>

definition c_cedilla :: string where "c_cedilla = [CHR 0xC3, CHR 0xA7]"
definition a_tilde :: string where "a_tilde = [CHR 0xC3, CHR 0xA3]"
definition a_acute :: string where "a_acute = [CHR 0xC3, CHR 0xA1]"
definition i_acute :: string where "i_acute = [CHR 0xC3, CHR 0xAD]"
definition e_circumflex :: string where "e_circumflex = [CHR 0xC3, CHR 0xAA]"

text \<open>\<^verbatim>\<open>f"A\<dots>o desconhecida: {request.action}"\<close>, the message for an action name no branch takes.\<close>

definition acao_desconhecida :: "string \<Rightarrow> string" where
  "acao_desconhecida a = ''A'' @ c_cedilla @ a_tilde @ ''o desconhecida: '' @ a"

section \<open>Vision module\<close>

text \<open>The body of \<^verbatim>\<open>vision_endpoint\<close> inside \<^verbatim>\<open>try\<close>: a chain of comparisons on the action name.\<close>

definition vision_body :: "VisionRequest \<Rightarrow> exn + pyobj" where
  "vision_body request =
     (if VisionRequest.action request = ''capture_screen'' then
        Inr (PyDict [(''success'', PyBool True),
          (''data'', PyDict [(''image_base64'', PyStr ''BASE64_DA_IMAGEM_AQUI''),
                             (''width'', PyInt 1920),
                             (''height'', PyInt 1080)])])
      else if VisionRequest.action request = ''analyze_image'' then
        Inr (PyDict [(''success'', PyBool True),
          (''data'', PyDict [(''analysis'',
             PyStr (''Descri'' @ c_cedilla @ a_tilde @ ''o da an'' @ a_acute @ ''lise da imagem''))])])
      else if VisionRequest.action request = ''find_element'' then
        Inr (PyDict [(''success'', PyBool True),
          (''data'', PyDict [(''elements'', PyList [
             PyDict [(''label'', PyStr (''bot'' @ a_tilde @ ''o'')),
                     (''bbox'', PyDict [(''x'', PyInt 100), (''y'', PyInt 200),
                                        (''width'', PyInt 80), (''height'', PyInt 30)]),
                     (''confidence'', PyFloat (95 / 100))]])])])
      else if VisionRequest.action request = ''ocr'' then
        Inr (PyDict [(''success'', PyBool True),
          (''data'', PyDict [(''text'', PyStr (''Texto extra'' @ i_acute @ ''do da tela''))])])
      else Inr (failure (acao_desconhecida (VisionRequest.action request))))"

definition vision_endpoint :: "VisionRequest \<Rightarrow> state \<Rightarrow> (exn + pyobj) \<times> state" where
  "vision_endpoint request s = (except_Exception (vision_body request), s)"

section \<open>Actions module\<close>

text \<open>
  The body of \<^verbatim>\<open>actions_endpoint\<close>. The f-strings format values of the request's
  \<^verbatim>\<open>data\<close> with Python's built-in \<^verbatim>\<open>str\<close>, which is the parameter \<open>py_str\<close>:
  it gives the text, or the exception the conversion raises (\<^verbatim>\<open>ValueError\<close> for an
  int beyond the digit limit). An f-string converts its values from left to right and the
  first exception leaves the body. \<^verbatim>\<open>data.get(key)\<close> is \<^verbatim>\<open>None\<close> for a missing key.
\<close>

definition actions_body :: "(pyobj \<Rightarrow> exn + string) \<Rightarrow> ActionRequest \<Rightarrow> exn + pyobj" where
  "actions_body py_str request =
     (let data = ActionRequest.data request in
      if ActionRequest.action request = ''click'' then
        (case py_str (dict_get data ''x'' PyNone) of
           Inl e \<Rightarrow> Inl e
         | Inr x \<Rightarrow>
            (case py_str (dict_get data ''y'' PyNone) of
               Inl e \<Rightarrow> Inl e
             | Inr y \<Rightarrow>
                Inr (PyDict [(''success'', PyBool True),
                  (''message'', PyStr (''Clique em ('' @ x @ '', '' @ y @ '')''))])))
      else if ActionRequest.action request = ''type'' then
        (case py_str (dict_get data ''text'' PyNone) of
           Inl e \<Rightarrow> Inl e
         | Inr t \<Rightarrow>
            Inr (PyDict [(''success'', PyBool True), (''message'', PyStr (''Digitado: '' @ t))]))
      else if ActionRequest.action request = ''scroll'' then
        (case py_str (dict_get data ''direction'' PyNone) of
           Inl e \<Rightarrow> Inl e
         | Inr d \<Rightarrow>
            Inr (PyDict [(''success'', PyBool True), (''message'', PyStr (''Scroll '' @ d))]))
      else if ActionRequest.action request = ''hotkey'' then
        (case py_str (dict_get data ''keys'' PyNone) of
           Inl e \<Rightarrow> Inl e
         | Inr ks \<Rightarrow>
            Inr (PyDict [(''success'', PyBool True), (''message'', PyStr (''Atalho: '' @ ks))]))
      else if ActionRequest.action request = ''move_mouse'' then
        (case py_str (dict_get data ''x'' PyNone) of
           Inl e \<Rightarrow> Inl e
         | Inr x \<Rightarrow>
            (case py_str (dict_get data ''y'' PyNone) of
               Inl e \<Rightarrow> Inl e
             | Inr y \<Rightarrow>
                Inr (PyDict [(''success'', PyBool True),
                  (''message'', PyStr (''Mouse movido para ('' @ x @ '', '' @ y @ '')''))])))
      else if ActionRequest.action request = ''drag'' then
        Inr (PyDict [(''success'', PyBool True), (''message'', PyStr ''Drag executado'')])
      else Inr (failure (acao_desconhecida (ActionRequest.action request))))"

definition actions_endpoint ::
  "(pyobj \<Rightarrow> exn + string) \<Rightarrow> ActionRequest \<Rightarrow> state \<Rightarrow> (exn + pyobj) \<times> state" where
  "actions_endpoint py_str request s = (except_Exception (actions_body py_str request), s)"

text \<open>The action names the Input Actuator recognises.\<close>

definition recognized_actions :: "string list" where
  "recognized_actions = [''click'', ''type'', ''scroll'', ''hotkey'', ''move_mouse'', ''drag'']"

section \<open>Planner module\<close>

text \<open>\<^verbatim>\<open>planner_endpoint\<close>: the canned plan, and the goal echoed in the reasoning.\<close>

definition planner_body :: "PlannerRequest \<Rightarrow> exn + pyobj" where
  "planner_body request =
     Inr (PyDict [(''success'', PyBool True),
       (''plan'', PyDict [
          (''steps'', PyList [
             PyDict [(''id'', PyInt 1), (''action'', PyStr ''capture_screen''),
                     (''description'', PyStr ''Capturar tela atual'')],
             PyDict [(''id'', PyInt 2), (''action'', PyStr ''find_element''),
                     (''description'', PyStr ''Encontrar elemento alvo'')],
             PyDict [(''id'', PyInt 3), (''action'', PyStr ''click''),
                     (''description'', PyStr ''Clicar no elemento'')]]),
          (''reasoning'', PyStr (''Plano gerado para: '' @ goal request))])])"

definition planner_endpoint :: "PlannerRequest \<Rightarrow> state \<Rightarrow> (exn + pyobj) \<times> state" where
  "planner_endpoint request s = (except_Exception (planner_body request), s)"

section \<open>Agent module\<close>

definition agent_body :: "AgentRequest \<Rightarrow> exn + pyobj" where
  "agent_body request =
     Inr (PyDict [(''success'', PyBool True),
       (''response'', PyStr (''Processando comando: '' @ command request)),
       (''actions_taken'', PyList []),
       (''plan'', PyNone)])"

definition agent_endpoint :: "AgentRequest \<Rightarrow> state \<Rightarrow> (exn + pyobj) \<times> state" where
  "agent_endpoint request s = (except_Exception (agent_body request), s)"

text \<open>
  \<^verbatim>\<open>agent_chat_endpoint\<close>. The conditional expression tests the truth value of
  \<^verbatim>\<open>request.context\<close>: \<^verbatim>\<open>None\<close> and the empty dict are both false. The history is
  read and not used.
\<close>

definition agent_chat_body :: "AgentRequest \<Rightarrow> exn + pyobj" where
  "agent_chat_body request =
     (let history =
        (case AgentRequest.context' request of
           None \<Rightarrow> PyList []
         | Some c \<Rightarrow> if c = [] then PyList [] else dict_get c ''conversation_history'' (PyList []))
      in Inr (PyDict [(''success'', PyBool True),
           (''response'', PyStr (''Ol'' @ a_acute @ ''! Voc'' @ e_circumflex @ '' disse: '' @ command request))]))"

definition agent_chat_endpoint :: "AgentRequest \<Rightarrow> state \<Rightarrow> (exn + pyobj) \<times> state" where
  "agent_chat_endpoint request s = (except_Exception (agent_chat_body request), s)"

section \<open>Connection manager\<close>

text \<open>
  What the transport does is given from outside: \<open>accept_error ws\<close> is the exception
  \<^verbatim>\<open>ws.accept()\<close> raises, and \<open>send_error ws\<close> the one \<^verbatim>\<open>ws.send_json(...)\<close> raises
  (the peer has gone); \<open>None\<close> when the call succeeds. A call of \<^verbatim>\<open>send_json\<close> is
  recorded whether or not it succeeds.
\<close>

definition send_json ::
  "(websocket \<Rightarrow> exn option) \<Rightarrow> websocket \<Rightarrow> pyobj \<Rightarrow> state \<Rightarrow> (exn + unit) \<times> state" where
  "send_json send_error ws message s =
     ((case send_error ws of Some e \<Rightarrow> Inl e | None \<Rightarrow> Inr ()),
      s\<lparr>sends := sends s @ [(ws, message)]\<rparr>)"

text \<open>\<^verbatim>\<open>ConnectionManager.connect\<close>: accept, then append to the list.\<close>

definition connect ::
  "(websocket \<Rightarrow> exn option) \<Rightarrow> websocket \<Rightarrow> state \<Rightarrow> (exn + unit) \<times> state" where
  "connect accept_error ws s =
     (case accept_error ws of
        Some e \<Rightarrow> (Inl e, s)
      | None \<Rightarrow> (Inr (), s\<lparr>active_connections := active_connections s @ [ws]\<rparr>))"

text \<open>
  \<^verbatim>\<open>ConnectionManager.disconnect\<close> is \<^verbatim>\<open>self.active_connections.remove(websocket)\<close>:
  \<^verbatim>\<open>list.remove\<close> deletes the first occurrence and raises \<^verbatim>\<open>ValueError\<close> when there
  is none.
\<close>

definition disconnect :: "websocket \<Rightarrow> state \<Rightarrow> (exn + unit) \<times> state" where
  "disconnect ws s =
     (if ws \<in> set (active_connections s)
      then (Inr (), s\<lparr>active_connections := remove1 ws (active_connections s)\<rparr>)
      else (Inl (Exn ValueError ''list.remove(x): x not in list''), s))"

text \<open>
  \<^verbatim>\<open>ConnectionManager.broadcast\<close>: a \<^verbatim>\<open>for\<close> loop over the list with no handler around
  the send, so the first exception leaves the loop and the method.
\<close>

fun broadcast_loop ::
  "(websocket \<Rightarrow> exn option) \<Rightarrow> pyobj \<Rightarrow> websocket list \<Rightarrow> state \<Rightarrow> (exn + unit) \<times> state" where
  "broadcast_loop send_error message [] s = (Inr (), s)"
| "broadcast_loop send_error message (connection # rest) s =
     (case send_json send_error connection message s of
        (Inl e, s') \<Rightarrow> (Inl e, s')
      | (Inr u, s') \<Rightarrow> broadcast_loop send_error message rest s')"

definition broadcast ::
  "(websocket \<Rightarrow> exn option) \<Rightarrow> pyobj \<Rightarrow> state \<Rightarrow> (exn + unit) \<times> state" where
  "broadcast send_error message s = broadcast_loop send_error message (active_connections s) s"

section \<open>WebSocket endpoint\<close>

text \<open>
  What \<^verbatim>\<open>await websocket.receive_text()\<close> yields, one entry per call: a text frame, or
  an exception (\<^verbatim>\<open>WebSocketDisconnect\<close> when the peer closes).
\<close>

datatype recv = Text string | RecvRaises exn

text \<open>
  The body of \<^verbatim>\<open>while True\<close>. It has no \<^verbatim>\<open>break\<close>: the loop ends only by an
  exception, which is the result \<open>Some e\<close>. When the inbound frames are used up the
  handler is suspended in \<^verbatim>\<open>receive_text\<close>, which is the result \<open>None\<close>.
  \<open>json_loads\<close> is \<^verbatim>\<open>json.loads\<close>, \<open>now k\<close> is the text of the \<open>k\<close>-th reading of
  \<^verbatim>\<open>datetime.now().isoformat()\<close>. The dict display evaluates its values in order:
  the module lookup, the clock, then the id lookup.
\<close>

fun ws_loop ::
  "(string \<Rightarrow> exn + pyobj) \<Rightarrow> (nat \<Rightarrow> string) \<Rightarrow> (websocket \<Rightarrow> exn option) \<Rightarrow>
   websocket \<Rightarrow> nat \<Rightarrow> recv list \<Rightarrow> state \<Rightarrow> exn option \<times> state" where
  "ws_loop json_loads now send_error ws k [] s = (None, s)"
| "ws_loop json_loads now send_error ws k (RecvRaises e # inbound) s = (Some e, s)"
| "ws_loop json_loads now send_error ws k (Text payload # inbound) s =
     (case json_loads payload of
        Inl e \<Rightarrow> (Some e, s)
      | Inr message \<Rightarrow>
         (case obj_get message ''module'' (PyStr ''system'') of
            Inl e \<Rightarrow> (Some e, s)
          | Inr module' \<Rightarrow>
             (case obj_get message ''id'' PyNone of
                Inl e \<Rightarrow> (Some e, s)
              | Inr ident \<Rightarrow>
                 (case send_json send_error ws
                         (PyDict [(''type'', PyStr ''response''),
                                  (''module'', module'),
                                  (''payload'', PyDict [(''status'', PyStr ''received''),
                                                        (''original'', message)]),
                                  (''timestamp'', PyStr (now k)),
                                  (''id'', ident)]) s of
                    (Inl e, s') \<Rightarrow> (Some e, s')
                  | (Inr u, s') \<Rightarrow> ws_loop json_loads now send_error ws (Suc k) inbound s'))))"

text \<open>
  How a call of the handler stands after the inbound frames: suspended in
  \<^verbatim>\<open>receive_text\<close>, returned, or left by an exception.
\<close>

datatype ws_result = Awaiting | Returned | Raised exn

text \<open>
  \<^verbatim>\<open>websocket_endpoint\<close>: \<^verbatim>\<open>manager.connect\<close> stands outside the \<^verbatim>\<open>try\<close>; the only
  handler is \<^verbatim>\<open>except WebSocketDisconnect: manager.disconnect(websocket)\<close>.
\<close>

definition websocket_endpoint ::
  "(websocket \<Rightarrow> exn option) \<Rightarrow> (websocket \<Rightarrow> exn option) \<Rightarrow> (string \<Rightarrow> exn + pyobj) \<Rightarrow>
   (nat \<Rightarrow> string) \<Rightarrow> websocket \<Rightarrow> recv list \<Rightarrow> state \<Rightarrow> ws_result \<times> state" where
  "websocket_endpoint accept_error send_error json_loads now ws inbound s =
     (case connect accept_error ws s of
        (Inl e, s1) \<Rightarrow> (Raised e, s1)
      | (Inr u, s1) \<Rightarrow>
         (case ws_loop json_loads now send_error ws 0 inbound s1 of
            (None, s2) \<Rightarrow> (Awaiting, s2)
          | (Some e, s2) \<Rightarrow>
             if exn_class e = WebSocketDisconnect then
               (case disconnect ws s2 of
                  (Inl e', s3) \<Rightarrow> (Raised e', s3)
                | (Inr u', s3) \<Rightarrow> (Returned, s3))
             else (Raised e, s2)))"

section \<open>Health check\<close>

text \<open>\<^verbatim>\<open>health_check\<close> has no \<^verbatim>\<open>try\<close>; \<open>now\<close> is the clock reading as ISO text.\<close>

definition health_check :: "string \<Rightarrow> state \<Rightarrow> (exn + pyobj) \<times> state" where
  "health_check now s =
     (Inr (PyDict [(''status'', PyStr ''healthy''),
                   (''modules'', PyList [PyStr ''vision'', PyStr ''actions'',
                                         PyStr ''planner'', PyStr ''agent'']),
                   (''timestamp'', PyStr now)]), s)"

section \<open>Reading results\<close>

text \<open>A field of the dict a handler returned; nothing when the handler raised.\<close>

definition field :: "string \<Rightarrow> exn + pyobj \<Rightarrow> pyobj option" where
  "field k r = (case r of Inr (PyDict d) \<Rightarrow> map_of d k | _ \<Rightarrow> None)"

text \<open>The step results a response reports: the entries of its \<^verbatim>\<open>actions_taken\<close> list.\<close>

definition step_results :: "exn + pyobj \<Rightarrow> pyobj list" where
  "step_results r = (case field ''actions_taken'' r of Some (PyList xs) \<Rightarrow> xs | _ \<Rightarrow> [])"

text \<open>The steps of the plan a response holds: the list under \<^verbatim>\<open>plan\<close>, \<^verbatim>\<open>steps\<close>.\<close>

definition plan_steps :: "exn + pyobj \<Rightarrow> pyobj list" where
  "plan_steps r =
     (case field ''plan'' r of
        Some (PyDict p) \<Rightarrow> (case map_of p ''steps'' of Some (PyList xs) \<Rightarrow> xs | _ \<Rightarrow> [])
      | _ \<Rightarrow> [])"

text \<open>The \<^verbatim>\<open>id\<close> of a plan step.\<close>

definition step_id :: "pyobj \<Rightarrow> pyobj option" where
  "step_id step = (case step of PyDict d \<Rightarrow> map_of d ''id'' | _ \<Rightarrow> None)"

text \<open>
  The connections of a list on which a loop that stops at the first failed send calls
  \<^verbatim>\<open>send_json\<close>: those before the first failing one, and that one; and the exception
  the first failing one raises.
\<close>

definition attempted :: "(websocket \<Rightarrow> exn option) \<Rightarrow> websocket list \<Rightarrow> websocket list" where
  "attempted send_error cs =
     takeWhile (\<lambda>c. send_error c = None) cs @ take 1 (dropWhile (\<lambda>c. send_error c = None) cs)"

definition first_error :: "(websocket \<Rightarrow> exn option) \<Rightarrow> websocket list \<Rightarrow> exn option" where
  "first_error send_error cs =
     (case dropWhile (\<lambda>c. send_error c = None) cs of [] \<Rightarrow> None | c # rest \<Rightarrow> send_error c)"

text \<open>
  The outbound message \<^verbatim>\<open>{type, module, payload, timestamp, id}\<close> for an inbound
  object \<open>d\<close> handled at clock text \<open>ts\<close>: \<^verbatim>\<open>id\<close> is the inbound \<^verbatim>\<open>id\<close> when there is
  one and \<^verbatim>\<open>None\<close> otherwise, \<^verbatim>\<open>module\<close> the inbound module or \<^verbatim>\<open>"system"\<close>.
\<close>

definition reply :: "string \<Rightarrow> pydict \<Rightarrow> pyobj" where
  "reply ts d =
     PyDict [(''type'', PyStr ''response''),
             (''module'', (case map_of d ''module'' of Some v \<Rightarrow> v | None \<Rightarrow> PyStr ''system'')),
             (''payload'', PyDict [(''status'', PyStr ''received''), (''original'', PyDict d)]),
             (''timestamp'', PyStr ts),
             (''id'', (case map_of d ''id'' of Some v \<Rightarrow> v | None \<Rightarrow> PyNone))]"

section \<open>Properties of the HTTP handlers\<close>

lemma except_Exception_Inr: "except_Exception (Inr v) = Inr v"
  by (simp add: except_Exception_def)

text \<open>
  Claim C10. The result of the vision endpoint does not depend on the request's
  \<^verbatim>\<open>data\<close>: two requests with the same action and any two payloads get equal results,
  and \<^verbatim>\<open>capture_screen\<close> always reports width 1920 and height 1080.
\<close>

theorem vision_ignores_data:
  "vision_endpoint \<lparr>VisionRequest.action = a, VisionRequest.data = d1\<rparr> s
     = vision_endpoint \<lparr>VisionRequest.action = a, VisionRequest.data = d2\<rparr> s
   \<and> vision_endpoint \<lparr>VisionRequest.action = ''capture_screen'', VisionRequest.data = d1\<rparr> s
     = (Inr (PyDict [(''success'', PyBool True),
          (''data'', PyDict [(''image_base64'', PyStr ''BASE64_DA_IMAGEM_AQUI''),
                             (''width'', PyInt 1920), (''height'', PyInt 1080)])]), s)"
  by (simp add: vision_endpoint_def vision_body_def except_Exception_Inr)

text \<open>
  Claim C1, as the code has it. For every action request whose action name is none of
  click, type, scroll, hotkey, move_mouse, drag, the actions endpoint returns (no
  exception leaves it) \<^verbatim>\<open>success\<close> false and an error that names the action; the error
  text is the Portuguese \<^verbatim>\<open>A\<dots>o desconhecida: \<close> followed by the action name, not
  \<^verbatim>\<open>UnknownAction: \<close> followed by it.
\<close>

theorem actions_unknown_action:
  "ActionRequest.action request \<notin> set recognized_actions \<Longrightarrow>
   actions_endpoint py_str request s
     = (Inr (PyDict [(''success'', PyBool False),
                     (''error'', PyStr (acao_desconhecida (ActionRequest.action request)))]), s)"
  by (simp add: actions_endpoint_def actions_body_def recognized_actions_def
      except_Exception_Inr failure_def)

theorem actions_unknown_action_witness:
  "''teleport'' \<notin> set recognized_actions \<and>
   actions_endpoint (\<lambda>v. Inr ''None'') \<lparr>ActionRequest.action = ''teleport'', ActionRequest.data = []\<rparr>
       \<lparr>active_connections = [], sends = []\<rparr>
     = (Inr (PyDict [(''success'', PyBool False),
          (''error'', PyStr (''A'' @ [CHR 0xC3, CHR 0xA7, CHR 0xC3, CHR 0xA3] @ ''o desconhecida: teleport''))]),
        \<lparr>active_connections = [], sends = []\<rparr>)"
proof -
  have h: "ActionRequest.action \<lparr>ActionRequest.action = ''teleport'', ActionRequest.data = []\<rparr>
             \<notin> set recognized_actions"
    by (simp add: recognized_actions_def)
  show ?thesis
    using h actions_unknown_action [OF h, of "\<lambda>v. Inr ''None''" "\<lparr>active_connections = [], sends = []\<rparr>"]
    by (simp add: acao_desconhecida_def c_cedilla_def a_tilde_def)
qed

text \<open>
  Claim C1 as the specification words it fails: the request \<^verbatim>\<open>{action: "teleport"}\<close>
  is not answered with the error \<^verbatim>\<open>UnknownAction: teleport\<close>.
\<close>

theorem actions_teleport_counterexample:
  "actions_endpoint (\<lambda>v. Inr ''None'') \<lparr>ActionRequest.action = ''teleport'', ActionRequest.data = []\<rparr>
       \<lparr>active_connections = [], sends = []\<rparr>
     \<noteq> (Inr (PyDict [(''success'', PyBool False), (''error'', PyStr ''UnknownAction: teleport'')]),
        \<lparr>active_connections = [], sends = []\<rparr>)"
  by (simp add: actions_endpoint_def actions_body_def except_Exception_Inr failure_def
      acao_desconhecida_def c_cedilla_def a_tilde_def)

text \<open>
  Claim C7. For every goal, the planner endpoint returns \<^verbatim>\<open>success\<close> true with a plan
  that holds an ordered list of steps and a reasoning string (the goal after a fixed
  prefix). The steps are the three steps capture_screen, find_element, click, in this
  order; their ids are 1, 2, 3, that is 1, 2, \<dots> up to the number of steps, hence
  sequential and unique. No step is executed: the state is returned as it was, with no
  connection touched and nothing sent.
\<close>

theorem planner_plan_sequential:
  "planner_endpoint request s
     = (Inr (PyDict [(''success'', PyBool True),
          (''plan'', PyDict [
             (''steps'', PyList [
                PyDict [(''id'', PyInt 1), (''action'', PyStr ''capture_screen''),
                        (''description'', PyStr ''Capturar tela atual'')],
                PyDict [(''id'', PyInt 2), (''action'', PyStr ''find_element''),
                        (''description'', PyStr ''Encontrar elemento alvo'')],
                PyDict [(''id'', PyInt 3), (''action'', PyStr ''click''),
                        (''description'', PyStr ''Clicar no elemento'')]]),
             (''reasoning'', PyStr (''Plano gerado para: '' @ goal request))])]), s)
   \<and> length (plan_steps (fst (planner_endpoint request s))) = 3
   \<and> map step_id (plan_steps (fst (planner_endpoint request s)))
       = [Some (PyInt 1), Some (PyInt 2), Some (PyInt 3)]
   \<and> map step_id (plan_steps (fst (planner_endpoint request s)))
       = map (\<lambda>i. Some (PyInt (int i)))
           [1 ..< Suc (length (plan_steps (fst (planner_endpoint request s))))]
   \<and> distinct (map step_id (plan_steps (fst (planner_endpoint request s))))"
  by (simp add: planner_endpoint_def planner_body_def except_Exception_Inr plan_steps_def
      field_def step_id_def upt_rec)

text \<open>
  Claim C9. The health check returns a dict with exactly the keys \<^verbatim>\<open>status\<close>,
  \<^verbatim>\<open>modules\<close>, \<^verbatim>\<open>timestamp\<close>, whose modules are the fixed list vision, actions, planner,
  agent; it leaves the state as it was, and its result is the same in every state.
\<close>

theorem health_check_shape:
  "health_check now s
     = (Inr (PyDict [(''status'', PyStr ''healthy''),
                     (''modules'', PyList [PyStr ''vision'', PyStr ''actions'',
                                           PyStr ''planner'', PyStr ''agent'']),
                     (''timestamp'', PyStr now)]), s)
   \<and> fst (health_check now s) = fst (health_check now s')"
  by (simp add: health_check_def)

text \<open>
  Claim C5, as the code has it. For every command, mode and context (so for the command
  ``take a screenshot and click at (100,200)'' with mode auto), the agent endpoint
  returns \<^verbatim>\<open>success\<close> true, the response text \<^verbatim>\<open>Processando comando: \<close> followed by
  the command, an empty \<^verbatim>\<open>actions_taken\<close> list and no plan. It reports no step result
  and sends nothing to any connection.
\<close>

theorem agent_returns_stub:
  "agent_endpoint request s
     = (Inr (PyDict [(''success'', PyBool True),
          (''response'', PyStr (''Processando comando: '' @ command request)),
          (''actions_taken'', PyList []),
          (''plan'', PyNone)]), s)
   \<and> step_results (fst (agent_endpoint request s)) = []
   \<and> sends (snd (agent_endpoint request s)) = sends s"
  by (simp add: agent_endpoint_def agent_body_def except_Exception_Inr step_results_def field_def)

text \<open>
  Claim C5 as the specification words it fails. With one observer connected, the command
  of the scenario yields a response that reports no two step results, holds no plan,
  and no event is sent.
\<close>

theorem agent_scenario_counterexample:
  "length (step_results (fst (agent_endpoint
      \<lparr>command = ''take a screenshot and click at (100,200)'', mode = Some ''auto'',
        AgentRequest.context' = None\<rparr>
      \<lparr>active_connections = [1], sends = []\<rparr>))) \<noteq> 2
   \<and> field ''plan'' (fst (agent_endpoint
      \<lparr>command = ''take a screenshot and click at (100,200)'', mode = Some ''auto'',
        AgentRequest.context' = None\<rparr>
      \<lparr>active_connections = [1], sends = []\<rparr>)) = Some PyNone
   \<and> sends (snd (agent_endpoint
      \<lparr>command = ''take a screenshot and click at (100,200)'', mode = Some ''auto'',
        AgentRequest.context' = None\<rparr>
      \<lparr>active_connections = [1], sends = []\<rparr>)) = []"
  by (simp add: agent_endpoint_def agent_body_def except_Exception_Inr step_results_def field_def)

text \<open>
  Claim C6, as the code has it. For the empty goal the planner does not fail: it returns
  \<^verbatim>\<open>success\<close> true with the canned three-step plan and the reasoning
  \<^verbatim>\<open>Plano gerado para: \<close>. For the empty command the agent endpoint returns
  \<^verbatim>\<open>success\<close> true with an empty \<^verbatim>\<open>actions_taken\<close> list. Each handler returns after one
  pass and leaves the state as it was: no step result, no event, no retry.
\<close>

theorem empty_goal_succeeds:
  "planner_endpoint \<lparr>goal = '''', PlannerRequest.context' = c\<rparr> s
     = (Inr (PyDict [(''success'', PyBool True),
          (''plan'', PyDict [
             (''steps'', PyList [
                PyDict [(''id'', PyInt 1), (''action'', PyStr ''capture_screen''),
                        (''description'', PyStr ''Capturar tela atual'')],
                PyDict [(''id'', PyInt 2), (''action'', PyStr ''find_element''),
                        (''description'', PyStr ''Encontrar elemento alvo'')],
                PyDict [(''id'', PyInt 3), (''action'', PyStr ''click''),
                        (''description'', PyStr ''Clicar no elemento'')]]),
             (''reasoning'', PyStr ''Plano gerado para: '')])]), s)
   \<and> agent_endpoint \<lparr>command = '''', mode = m, AgentRequest.context' = c\<rparr> s
     = (Inr (PyDict [(''success'', PyBool True),
          (''response'', PyStr ''Processando comando: ''),
          (''actions_taken'', PyList []),
          (''plan'', PyNone)]), s)"
  by (simp add: planner_endpoint_def planner_body_def agent_endpoint_def agent_body_def
      except_Exception_Inr)

text \<open>
  Claim C6 as the specification words it fails: for the empty goal the planner reports
  success and no error, and the agent endpoint reports success, not a failed session.
\<close>

theorem empty_goal_counterexample:
  "field ''success'' (fst (planner_endpoint \<lparr>goal = '''', PlannerRequest.context' = None\<rparr>
      \<lparr>active_connections = [], sends = []\<rparr>)) = Some (PyBool True)
   \<and> field ''error'' (fst (planner_endpoint \<lparr>goal = '''', PlannerRequest.context' = None\<rparr>
      \<lparr>active_connections = [], sends = []\<rparr>)) = None
   \<and> field ''success'' (fst (agent_endpoint
      \<lparr>command = '''', mode = Some ''auto'', AgentRequest.context' = None\<rparr>
      \<lparr>active_connections = [], sends = []\<rparr>)) = Some (PyBool True)"
  by (simp add: planner_endpoint_def planner_body_def agent_endpoint_def agent_body_def
      except_Exception_Inr field_def)

section \<open>Properties of the connection manager\<close>

text \<open>
  Claim C4, as the code has it. Unregistering a connection that is registered removes its
  first occurrence. Unregistering a connection that is not registered (so also a second
  unregister of a connection registered once) leaves the membership as it was and raises
  \<^verbatim>\<open>ValueError\<close>.
\<close>

theorem disconnect_removes_or_raises:
  "(ws \<in> set (active_connections s) \<longrightarrow>
      disconnect ws s = (Inr (), s\<lparr>active_connections := remove1 ws (active_connections s)\<rparr>))
   \<and> (ws \<notin> set (active_connections s) \<longrightarrow>
      disconnect ws s = (Inl (Exn ValueError ''list.remove(x): x not in list''), s))"
  by (simp add: disconnect_def)

theorem disconnect_removes_or_raises_witness:
  "7 \<in> set (active_connections \<lparr>active_connections = [7], sends = []\<rparr>)
   \<and> disconnect 7 \<lparr>active_connections = [7], sends = []\<rparr>
       = (Inr (), \<lparr>active_connections = [], sends = []\<rparr>)
   \<and> 7 \<notin> set (active_connections \<lparr>active_connections = [], sends = []\<rparr>)
   \<and> disconnect 7 \<lparr>active_connections = [], sends = []\<rparr>
       = (Inl (Exn ValueError ''list.remove(x): x not in list''), \<lparr>active_connections = [], sends = []\<rparr>)"
  using disconnect_removes_or_raises [of 7 "\<lparr>active_connections = [7], sends = []\<rparr>"]
    disconnect_removes_or_raises [of 7 "\<lparr>active_connections = [], sends = []\<rparr>"]
  by simp

text \<open>
  Claim C4 as the specification words it fails: the second unregister of a connection
  is not a silent no-op, it raises.
\<close>

theorem disconnect_twice_counterexample:
  "disconnect 7 (snd (disconnect 7 \<lparr>active_connections = [7], sends = []\<rparr>))
     \<noteq> (Inr (), snd (disconnect 7 \<lparr>active_connections = [7], sends = []\<rparr>))
   \<and> fst (disconnect 7 (snd (disconnect 7 \<lparr>active_connections = [7], sends = []\<rparr>)))
     = Inl (Exn ValueError ''list.remove(x): x not in list'')"
  by (simp add: disconnect_def)

lemma attempted_Cons:
  "attempted se (c # cs) = (if se c = None then c # attempted se cs else [c])"
  by (simp add: attempted_def)

lemma first_error_Cons:
  "first_error se (c # cs) = (if se c = None then first_error se cs else se c)"
  by (simp add: first_error_def)

lemma broadcast_loop_eq:
  "broadcast_loop se m cs s
     = ((case first_error se cs of None \<Rightarrow> Inr () | Some e \<Rightarrow> Inl e),
        s\<lparr>sends := sends s @ map (\<lambda>c. (c, m)) (attempted se cs)\<rparr>)"
proof (induction cs arbitrary: s)
  case Nil
  show ?case by (simp add: attempted_def first_error_def)
next
  case (Cons c cs)
  show ?case
  proof (cases "se c")
    case None
    then show ?thesis
      by (simp add: Cons.IH send_json_def attempted_Cons first_error_Cons)
  next
    case (Some e)
    then show ?thesis
      by (simp add: send_json_def attempted_Cons first_error_Cons)
  qed
qed

lemma attempted_all_ok:
  "list_all (\<lambda>c. se c = None) cs \<Longrightarrow> attempted se cs = cs \<and> first_error se cs = None"
  by (induction cs) (simp_all add: attempted_Cons first_error_Cons, simp_all add: attempted_def first_error_def)

text \<open>
  Claim C3, as the code has it. Broadcast calls \<^verbatim>\<open>send_json\<close> on the registered
  connections in list order, up to and including the first one whose send fails; when no
  send fails these are exactly the registered connections, each once per entry. A failed
  send raises out of broadcast: the connections after it are not tried, and the registry
  is left as it was.
\<close>

theorem broadcast_until_first_failure:
  "broadcast send_error message s
     = ((case first_error send_error (active_connections s) of None \<Rightarrow> Inr () | Some e \<Rightarrow> Inl e),
        s\<lparr>sends := sends s @ map (\<lambda>c. (c, message)) (attempted send_error (active_connections s))\<rparr>)
   \<and> (list_all (\<lambda>c. send_error c = None) (active_connections s) \<longrightarrow>
        broadcast send_error message s
          = (Inr (), s\<lparr>sends := sends s @ map (\<lambda>c. (c, message)) (active_connections s)\<rparr>))"
  using attempted_all_ok [of send_error "active_connections s"]
  by (simp add: broadcast_def broadcast_loop_eq)

theorem broadcast_until_first_failure_witness:
  "list_all (\<lambda>c. Map.empty c = None) (active_connections \<lparr>active_connections = [1, 2], sends = []\<rparr>)
   \<and> broadcast Map.empty (PyStr ''event'') \<lparr>active_connections = [1, 2], sends = []\<rparr>
     = (Inr (), \<lparr>active_connections = [1, 2], sends = [(1, PyStr ''event''), (2, PyStr ''event'')]\<rparr>)"
  using broadcast_until_first_failure [of Map.empty "PyStr ''event''" "\<lparr>active_connections = [1, 2], sends = []\<rparr>"]
  by (simp add: attempted_def first_error_def)

text \<open>
  Claim C3 as the specification words it fails. With connections 1 and 2 registered and
  the send to 1 failing, broadcast raises: connection 2 is never tried, and connection 1
  is still registered afterwards.
\<close>

theorem broadcast_failure_counterexample:
  "broadcast [1 \<mapsto> Exn RuntimeError ''closed''] (PyStr ''event'')
       \<lparr>active_connections = [1, 2], sends = []\<rparr>
     = (Inl (Exn RuntimeError ''closed''),
        \<lparr>active_connections = [1, 2], sends = [(1, PyStr ''event'')]\<rparr>)"
  by (simp add: broadcast_def send_json_def)

section \<open>Properties of the WebSocket endpoint\<close>

lemma ws_loop_Text_dict:
  "json_loads payload = Inr (PyDict d) \<Longrightarrow> send_error ws = None \<Longrightarrow>
   ws_loop json_loads now send_error ws k (Text payload # inbound) s
     = ws_loop json_loads now send_error ws (Suc k) inbound
         (s\<lparr>sends := sends s @ [(ws, reply (now k) d)]\<rparr>)"
  by (simp add: send_json_def reply_def dict_get_def)

lemma ws_loop_sends:
  "\<exists>later. sends (snd (ws_loop json_loads now send_error ws k inbound s)) = sends s @ later"
proof (induction inbound arbitrary: k s)
  case Nil
  show ?case by simp
next
  case (Cons r inbound)
  show ?case
  proof (cases r)
    case (RecvRaises e)
    then show ?thesis by simp
  next
    case (Text payload)
    have step: "\<exists>later. sends (snd (ws_loop json_loads now send_error ws (Suc k) inbound
                  (s\<lparr>sends := sends s @ [m]\<rparr>))) = sends s @ later" for m
      using Cons.IH [of "Suc k" "s\<lparr>sends := sends s @ [m]\<rparr>"] by auto
    show ?thesis
      using step by (auto simp: Text send_json_def split: sum.splits option.splits)
  qed
qed

lemma ws_loop_replies:
  "send_error ws = None \<Longrightarrow> list_all2 (\<lambda>p d. json_loads p = Inr (PyDict d)) ps ds \<Longrightarrow>
   ws_loop json_loads now send_error ws k (map Text ps @ inbound) s
     = ws_loop json_loads now send_error ws (k + length ps) inbound
         (s\<lparr>sends := sends s @ map (\<lambda>(i, d). (ws, reply (now i) d)) (enumerate k ds)\<rparr>)"
proof (induction ps arbitrary: ds k s)
  case Nil
  then show ?case by simp
next
  case (Cons p ps)
  from Cons.prems(2) obtain d ds' where ds: "ds = d # ds'" and p: "json_loads p = Inr (PyDict d)"
    and rest: "list_all2 (\<lambda>p d. json_loads p = Inr (PyDict d)) ps ds'"
    by (auto simp: list_all2_Cons1)
  have step: "ws_loop json_loads now send_error ws k (map Text (p # ps) @ inbound) s
      = ws_loop json_loads now send_error ws (Suc k) (map Text ps @ inbound)
          (s\<lparr>sends := sends s @ [(ws, reply (now k) d)]\<rparr>)"
    using ws_loop_Text_dict [where json_loads = json_loads and send_error = send_error
        and ws = ws and d = d, OF p Cons.prems(1)]
    by (simp del: ws_loop.simps)
  show ?case
    unfolding step
    using Cons.IH [OF Cons.prems(1) rest, of "Suc k" "s\<lparr>sends := sends s @ [(ws, reply (now k) d)]\<rparr>"]
    by (simp add: ds del: ws_loop.simps)
qed

lemma websocket_endpoint_sends:
  "accept_error ws = None \<Longrightarrow>
   sends (snd (websocket_endpoint accept_error send_error json_loads now ws inbound s))
     = sends (snd (ws_loop json_loads now send_error ws 0 inbound
                     (s\<lparr>active_connections := active_connections s @ [ws]\<rparr>)))"
  by (cases "ws_loop json_loads now send_error ws 0 inbound
               (s\<lparr>active_connections := active_connections s @ [ws]\<rparr>)")
    (auto simp: websocket_endpoint_def connect_def disconnect_def split: option.splits)

text \<open>
  Claim C8. On an accepted connection whose sends succeed, let the first inbound frames
  \<open>ps\<close> decode to the objects \<open>ds\<close>. Then the handler sends on that same connection,
  in order, one message per inbound object, each a dict with exactly the keys
  \<^verbatim>\<open>type\<close>, \<^verbatim>\<open>module\<close>, \<^verbatim>\<open>payload\<close>, \<^verbatim>\<open>timestamp\<close>, \<^verbatim>\<open>id\<close>, whose \<^verbatim>\<open>id\<close> is the
  inbound \<^verbatim>\<open>id\<close> when the inbound object has one (and \<^verbatim>\<open>None\<close> when it has not).
\<close>

theorem websocket_replies:
  "accept_error ws = None \<Longrightarrow> send_error ws = None \<Longrightarrow>
   list_all2 (\<lambda>p d. json_loads p = Inr (PyDict d)) ps ds \<Longrightarrow>
   \<exists>later. sends (snd (websocket_endpoint accept_error send_error json_loads now ws
                          (map Text ps @ inbound) s))
     = sends s
       @ map (\<lambda>(k, d). (ws,
           PyDict [(''type'', PyStr ''response''),
                   (''module'', (case map_of d ''module'' of Some v \<Rightarrow> v | None \<Rightarrow> PyStr ''system'')),
                   (''payload'', PyDict [(''status'', PyStr ''received''), (''original'', PyDict d)]),
                   (''timestamp'', PyStr (now k)),
                   (''id'', (case map_of d ''id'' of Some v \<Rightarrow> v | None \<Rightarrow> PyNone))]))
           (enumerate 0 ds)
       @ later"
proof -
  assume a: "accept_error ws = None" and se: "send_error ws = None"
    and dec: "list_all2 (\<lambda>p d. json_loads p = Inr (PyDict d)) ps ds"
  let ?s1 = "s\<lparr>active_connections := active_connections s @ [ws]\<rparr>"
  let ?s2 = "?s1\<lparr>sends := sends ?s1 @ map (\<lambda>(k, d). (ws, reply (now k) d)) (enumerate 0 ds)\<rparr>"
  have loop: "ws_loop json_loads now send_error ws 0 (map Text ps @ inbound) ?s1
      = ws_loop json_loads now send_error ws (0 + length ps) inbound ?s2"
    by (rule ws_loop_replies
        [where json_loads = json_loads and send_error = send_error and ws = ws and ds = ds, OF se dec])
  obtain later where later:
    "sends (snd (ws_loop json_loads now send_error ws (0 + length ps) inbound ?s2)) = sends ?s2 @ later"
    using ws_loop_sends [of json_loads now send_error ws "0 + length ps" inbound ?s2] by blast
  have "sends (snd (websocket_endpoint accept_error send_error json_loads now ws
                          (map Text ps @ inbound) s))
      = sends (snd (ws_loop json_loads now send_error ws 0 (map Text ps @ inbound) ?s1))"
    by (rule websocket_endpoint_sends [where accept_error = accept_error and ws = ws, OF a])
  also have "\<dots> = sends ?s2 @ later"
    unfolding loop by (rule later)
  finally show ?thesis by (simp add: reply_def)
qed

theorem websocket_replies_witness:
  "Map.empty (1::nat) = (None :: exn option)
   \<and> list_all2
        (\<lambda>p d. (if p = ''{'' @ [CHR 0x22] @ ''id'' @ [CHR 0x22] @ '': 7}''
                 then Inr (PyDict [(''id'', PyInt 7)])
                 else Inl (Exn JSONDecodeError ''Expecting value: line 1 column 1 (char 0)''))
               = Inr (PyDict d))
        [''{'' @ [CHR 0x22] @ ''id'' @ [CHR 0x22] @ '': 7}''] [[(''id'', PyInt 7)]]
   \<and> sends (snd (websocket_endpoint Map.empty Map.empty
          (\<lambda>p. if p = ''{'' @ [CHR 0x22] @ ''id'' @ [CHR 0x22] @ '': 7}''
                then Inr (PyDict [(''id'', PyInt 7)])
                else Inl (Exn JSONDecodeError ''Expecting value: line 1 column 1 (char 0)''))
          (\<lambda>k. ''2026-01-01T00:00:00'') 1
          (map Text [''{'' @ [CHR 0x22] @ ''id'' @ [CHR 0x22] @ '': 7}''] @ [])
          \<lparr>active_connections = [], sends = []\<rparr>))
       = [(1, PyDict [(''type'', PyStr ''response''),
                      (''module'', PyStr ''system''),
                      (''payload'', PyDict [(''status'', PyStr ''received''),
                                            (''original'', PyDict [(''id'', PyInt 7)])]),
                      (''timestamp'', PyStr ''2026-01-01T00:00:00''),
                      (''id'', PyInt 7)])]"
proof -
  have a: "Map.empty (1::nat) = (None :: exn option)" by simp
  have dec: "list_all2
        (\<lambda>p d. (if p = ''{'' @ [CHR 0x22] @ ''id'' @ [CHR 0x22] @ '': 7}''
                 then Inr (PyDict [(''id'', PyInt 7)])
                 else Inl (Exn JSONDecodeError ''Expecting value: line 1 column 1 (char 0)''))
               = Inr (PyDict d))
        [''{'' @ [CHR 0x22] @ ''id'' @ [CHR 0x22] @ '': 7}''] [[(''id'', PyInt 7)]]"
    by simp
  show ?thesis
    using a dec websocket_replies [where accept_error = Map.empty and send_error = Map.empty
        and ws = 1 and now = "\<lambda>k. ''2026-01-01T00:00:00''" and inbound = "[]"
        and s = "\<lparr>active_connections = [], sends = []\<rparr>", OF a a dec]
    by (simp add: enumerate_eq_zip websocket_endpoint_def connect_def send_json_def dict_get_def)
qed

text \<open>
  Claim C2 fails on the real-time channel. When \<^verbatim>\<open>json.loads\<close> raises on an inbound
  frame, the exception is not \<^verbatim>\<open>WebSocketDisconnect\<close>, so the only handler of
  \<^verbatim>\<open>websocket_endpoint\<close> does not catch it: it leaves the handler, no
  \<^verbatim>\<open>{success: false, error}\<close> message is sent, and the connection stays registered.
\<close>

theorem websocket_decode_error_escapes:
  "accept_error ws = None \<Longrightarrow> json_loads payload = Inl e \<Longrightarrow> exn_class e \<noteq> WebSocketDisconnect \<Longrightarrow>
   websocket_endpoint accept_error send_error json_loads now ws (Text payload # inbound) s
     = (Raised e, s\<lparr>active_connections := active_connections s @ [ws]\<rparr>)"
  by (simp add: websocket_endpoint_def connect_def)

theorem websocket_decode_error_escapes_witness:
  "Map.empty (1::nat) = (None :: exn option)
   \<and> exn_class (Exn JSONDecodeError ''Expecting value: line 1 column 1 (char 0)'') \<noteq> WebSocketDisconnect
   \<and> websocket_endpoint Map.empty Map.empty
        (\<lambda>p. Inl (Exn JSONDecodeError ''Expecting value: line 1 column 1 (char 0)''))
        (\<lambda>k. ''2026-01-01T00:00:00'') 1 [Text ''not json'']
        \<lparr>active_connections = [], sends = []\<rparr>
     = (Raised (Exn JSONDecodeError ''Expecting value: line 1 column 1 (char 0)''),
        \<lparr>active_connections = [1], sends = []\<rparr>)"
proof -
  have a: "Map.empty (1::nat) = (None :: exn option)" by simp
  have c: "exn_class (Exn JSONDecodeError ''Expecting value: line 1 column 1 (char 0)'') \<noteq> WebSocketDisconnect"
    by simp
  show ?thesis
    using a c websocket_decode_error_escapes [where accept_error = Map.empty and ws = 1
        and json_loads = "\<lambda>p. Inl (Exn JSONDecodeError ''Expecting value: line 1 column 1 (char 0)'')"
        and payload = "''not json''" and send_error = Map.empty
        and now = "\<lambda>k. ''2026-01-01T00:00:00''" and inbound = "[]"
        and s = "\<lparr>active_connections = [], sends = []\<rparr>", OF a refl c]
    by simp
qed

text \<open>
  The same happens to an inbound frame that decodes to a value other than an object, a
  list for one: \<^verbatim>\<open>message.get\<close> raises \<^verbatim>\<open>AttributeError\<close>, which leaves the handler.
\<close>

lemma websocket_non_object_escapes:
  "accept_error ws = None \<Longrightarrow> json_loads payload = Inr (PyList xs) \<Longrightarrow>
   websocket_endpoint accept_error send_error json_loads now ws (Text payload # inbound) s
     = (Raised (Exn AttributeError ([CHR 0x27] @ ''list'' @ [CHR 0x27] @ '' object has no attribute ''
                  @ [CHR 0x27] @ ''get'' @ [CHR 0x27])),
        s\<lparr>active_connections := active_connections s @ [ws]\<rparr>)"
  by (simp add: websocket_endpoint_def connect_def)

text \<open>
  The five HTTP handlers, by contrast, close with \<^verbatim>\<open>except Exception\<close>: each returns a
  result and never lets an exception out. When the conversion of a value of \<^verbatim>\<open>data\<close>
  raises in the actions handler, the result is \<^verbatim>\<open>success\<close> false with the exception's
  text.
\<close>

lemma http_handlers_return:
  "(\<exists>r. fst (vision_endpoint vr s) = Inr r)
   \<and> (\<exists>r. fst (actions_endpoint py_str ar s) = Inr r)
   \<and> (\<exists>r. fst (planner_endpoint pr s) = Inr r)
   \<and> (\<exists>r. fst (agent_endpoint gr s) = Inr r)
   \<and> (\<exists>r. fst (agent_chat_endpoint gr s) = Inr r)"
  by (simp add: vision_endpoint_def actions_endpoint_def planner_endpoint_def agent_endpoint_def
      agent_chat_endpoint_def except_Exception_def split: sum.splits)

lemma actions_conversion_error_caught:
  "ActionRequest.action request = ''type'' \<Longrightarrow>
   py_str (dict_get (ActionRequest.data request) ''text'' PyNone) = Inl e \<Longrightarrow>
   actions_endpoint py_str request s
     = (Inr (PyDict [(''success'', PyBool False), (''error'', PyStr (exn_str e))]), s)"
  by (simp add: actions_endpoint_def actions_body_def except_Exception_def failure_def)

end
